theory Spec2Isabelle
  imports Main
begin

section \<open>Package-level values (cache.go)\<close>

text \<open>
  Go strings and byte slices are both sequences of bytes; both are modelled as
  \<open>string\<close>, so that the conversions \<open>[]byte(s)\<close> and \<open>string(b)\<close> are the
  identity. A \<open>time.Duration\<close> is a number of nanoseconds.
\<close>

type_synonym bytes = string
type_synonym duration = int

definition Second :: duration where
  "Second = 1000000000"

definition Minute :: duration where
  "Minute = 60 * Second"

definition Hour :: duration where
  "Hour = 60 * Minute"

definition DefaultExpireTime :: duration where
  "DefaultExpireTime = Hour * 24"

definition DefaultNotFoundExpireTime :: duration where
  "DefaultNotFoundExpireTime = Minute * 10"

definition NotFoundPlaceholder :: string where
  "NotFoundPlaceholder = ''*''"

definition NotFoundPlaceholderBytes :: bytes where
  "NotFoundPlaceholderBytes = NotFoundPlaceholder"

text \<open>
  Errors are values. \<open>ErrNew\<close> is an error made by \<open>errors.New\<close> or by a
  \<open>fmt.Errorf\<close> without a cause, \<open>Errorf\<close> a \<open>fmt.Errorf\<close> around a cause; the
  message (Chinese in the source) is named by an ASCII tag, followed by the key or the
  name the message prints. \<open>External\<close> is an error that a collaborator hands back: a
  codec, the transport of a remote store, the closing of a client. \<open>RedisNil\<close> is
  \<open>redis.Nil\<close>, the value of \<open>CacheNotFound\<close>.
\<close>

datatype error =
    ErrNotAPointer
  | ErrPlaceholder
  | RedisNil
  | ErrNew string
  | Errorf string error
  | External string

definition CacheNotFound :: error where
  "CacheNotFound = RedisNil"

section \<open>Key builder (BuildCacheKey)\<close>

definition BuildCacheKey :: "string \<Rightarrow> string \<Rightarrow> error + string" where
  "BuildCacheKey keyPrefix key =
     (if key = '''' then Inl (ErrNew ''cache: key must not be empty'')
      else Inr (if keyPrefix = '''' then key else keyPrefix @ '':'' @ key))"

section \<open>Encoding layer (Marshal, Unmarshal)\<close>

text \<open>
  A Go value passed as \<open>interface{}\<close> is modelled by what the code asks of it: its
  reflected kind, the data it holds or points to, and the two optional capabilities
  \<open>encoding.BinaryMarshaler\<close> and \<open>encoding.BinaryUnmarshaler\<close> (\<open>None\<close> when the
  type assertion fails). \<open>MarshalBinary\<close> reads the data; \<open>UnmarshalBinary\<close> returns
  its error together with the data as it leaves it.
\<close>

datatype kind = Ptr | Interface | OtherKind

record 'a gvalue =
  kind :: kind
  content :: 'a
  asBinaryMarshaler :: "('a \<Rightarrow> error + bytes) option"
  asBinaryUnmarshaler :: "(bytes \<Rightarrow> 'a \<Rightarrow> error option \<times> 'a) option"

text \<open>
  The \<open>Encoding\<close> interface. An \<open>Encoding\<close> argument of the source is an
  \<open>'a Encoding option\<close>, \<open>None\<close> being the nil interface.
\<close>

record 'a Encoding =
  enc_Marshal :: "'a \<Rightarrow> error + bytes"
  enc_Unmarshal :: "bytes \<Rightarrow> 'a \<Rightarrow> error option \<times> 'a"

text \<open>
  A call either returns or panics. A method call on a nil interface panics; the panic
  unwinds through every caller, none of which recovers.
\<close>

datatype 'r outcome = Return 'r | Panic

definition isPointer :: "'a gvalue \<Rightarrow> bool" where
  "isPointer data = (case kind data of Ptr \<Rightarrow> True | Interface \<Rightarrow> True | OtherKind \<Rightarrow> False)"

text \<open>
  \<open>Marshal\<close>: with a nil encoding the binary marshaler is used when the value has one,
  and otherwise \<open>e.Marshal(v)\<close> is a call on the nil interface. With an encoding, its
  result is returned when it succeeds, and the binary marshaler is the fallback.
\<close>

definition Marshal :: "'a Encoding option \<Rightarrow> 'a gvalue \<Rightarrow> (error + bytes) outcome" where
  "Marshal e v =
     (if \<not> isPointer v then Return (Inl ErrNotAPointer)
      else case e of
        None \<Rightarrow>
          (case asBinaryMarshaler v of
             Some bm \<Rightarrow> Return (bm (content v))
           | None \<Rightarrow> Panic)
      | Some enc \<Rightarrow>
          (case enc_Marshal enc (content v) of
             Inr data \<Rightarrow> Return (Inr data)
           | Inl err \<Rightarrow>
               (case asBinaryMarshaler v of
                  Some bm \<Rightarrow> Return (bm (content v))
                | None \<Rightarrow> Return (Inl err))))"

text \<open>
  \<open>Unmarshal\<close> returns its error and the target as decoding leaves it.
\<close>

definition Unmarshal ::
  "'a Encoding option \<Rightarrow> bytes \<Rightarrow> 'a gvalue \<Rightarrow> (error option \<times> 'a gvalue) outcome" where
  "Unmarshal e data v =
     (if \<not> isPointer v then Return (Some ErrNotAPointer, v)
      else case e of
        None \<Rightarrow>
          (case asBinaryUnmarshaler v of
             Some bm \<Rightarrow>
               (case bm data (content v) of (err, c) \<Rightarrow> Return (err, v\<lparr>content := c\<rparr>))
           | None \<Rightarrow> Panic)
      | Some enc \<Rightarrow>
          (case enc_Unmarshal enc data (content v) of
             (None, c) \<Rightarrow> Return (None, v\<lparr>content := c\<rparr>)
           | (Some err, c) \<Rightarrow>
               (case asBinaryUnmarshaler v of
                  Some bm \<Rightarrow>
                    (case bm data c of (err2, c2) \<Rightarrow> Return (err2, v\<lparr>content := c2\<rparr>))
                | None \<Rightarrow> Return (Some err, v\<lparr>content := c\<rparr>))))"

section \<open>The in-process engine (ristretto client)\<close>

text \<open>
  The bounded in-process engine is an external collaborator, used through
  \<open>SetWithTTL\<close>, \<open>Get\<close>, \<open>Del\<close>, \<open>Wait\<close> and \<open>Close\<close>. It buffers writes: a
  new key is queued in the set buffer and becomes readable once the engine has
  processed it, an update of a key already stored is applied at once, and \<open>Wait\<close>
  returns when the whole buffer has been processed. Eviction and admission are not
  modelled. A stored value is an \<open>interface{}\<close>: bytes when this package wrote it.
\<close>

datatype item = BytesVal bytes | OtherVal string

datatype bufItem = ItemSet string item duration | ItemDelete string

record ristretto =
  rs_store :: "string \<rightharpoonup> item \<times> duration"
  rs_setBuf :: "bufItem list"
  rs_isClosed :: bool

fun applyItem :: "(string \<rightharpoonup> item \<times> duration) \<Rightarrow> bufItem \<Rightarrow> (string \<rightharpoonup> item \<times> duration)" where
  "applyItem st (ItemSet k v ttl) = st(k \<mapsto> (v, ttl))"
| "applyItem st (ItemDelete k) = st(k := None)"

text \<open>The engine's background worker handles the first \<open>n\<close> buffered items.\<close>

definition ristretto_processItems :: "nat \<Rightarrow> ristretto \<Rightarrow> ristretto" where
  "ristretto_processItems n c =
     c\<lparr>rs_store := foldl applyItem (rs_store c) (take n (rs_setBuf c)),
       rs_setBuf := drop n (rs_setBuf c)\<rparr>"

definition ristretto_SetWithTTL ::
  "string \<Rightarrow> item \<Rightarrow> int \<Rightarrow> duration \<Rightarrow> ristretto \<Rightarrow> bool \<times> ristretto" where
  "ristretto_SetWithTTL key val cost ttl c =
     (if rs_isClosed c then (False, c)
      else if ttl < 0 then (False, c)
      else case rs_store c key of
        Some prev \<Rightarrow>
          (True, c\<lparr>rs_store := (rs_store c)(key \<mapsto> (val, ttl)),
                   rs_setBuf := rs_setBuf c @ [ItemSet key val ttl]\<rparr>)
      | None \<Rightarrow> (True, c\<lparr>rs_setBuf := rs_setBuf c @ [ItemSet key val ttl]\<rparr>))"

definition ristretto_Get :: "string \<Rightarrow> ristretto \<Rightarrow> item option" where
  "ristretto_Get key c =
     (if rs_isClosed c then None
      else case rs_store c key of Some (val, ttl) \<Rightarrow> Some val | None \<Rightarrow> None)"

definition ristretto_Del :: "string \<Rightarrow> ristretto \<Rightarrow> ristretto" where
  "ristretto_Del key c =
     (if rs_isClosed c then c
      else c\<lparr>rs_store := (rs_store c)(key := None),
             rs_setBuf := rs_setBuf c @ [ItemDelete key]\<rparr>)"

definition ristretto_Wait :: "ristretto \<Rightarrow> ristretto" where
  "ristretto_Wait c =
     (if rs_isClosed c then c else ristretto_processItems (length (rs_setBuf c)) c)"

definition ristretto_Close :: "ristretto \<Rightarrow> ristretto" where
  "ristretto_Close c =
     (if rs_isClosed c then c
      else c\<lparr>rs_store := Map.empty, rs_setBuf := [], rs_isClosed := True\<rparr>)"

section \<open>The remote store (redis client)\<close>

text \<open>
  The remote store is an external collaborator too. The client is modelled together
  with the keyspace it talks to: a map from key to value and time-to-live (zero: no
  expiry). No time passes inside the model. \<open>fault\<close> is a transport failure: while it
  is set, every command returns it and changes nothing. \<open>closeErr\<close> is what the
  client's \<open>Close\<close> returns. The cluster client is used by code that is the
  single-node code word for word; it is modelled by the same record.
\<close>

record redisClient =
  db :: "string \<rightharpoonup> bytes \<times> duration"
  fault :: "error option"
  closeErr :: "error option"
  closed :: bool

definition KeepTTL :: duration where
  "KeepTTL = - 1"

definition redis_Set ::
  "string \<Rightarrow> bytes \<Rightarrow> duration \<Rightarrow> redisClient \<Rightarrow> error option \<times> redisClient" where
  "redis_Set key val expiration cl =
     (case fault cl of
        Some e \<Rightarrow> (Some e, cl)
      | None \<Rightarrow>
          (None, cl\<lparr>db := (db cl)(key \<mapsto> (val,
             if 0 < expiration then expiration
             else if expiration = KeepTTL
               then (case db cl key of Some (prev, ttl) \<Rightarrow> ttl | None \<Rightarrow> 0)
             else 0))\<rparr>))"

definition redis_Get :: "string \<Rightarrow> redisClient \<Rightarrow> error + bytes" where
  "redis_Get key cl =
     (case fault cl of
        Some e \<Rightarrow> Inl e
      | None \<Rightarrow> (case db cl key of None \<Rightarrow> Inl RedisNil | Some (val, ttl) \<Rightarrow> Inr val))"

definition redis_MGet :: "string list \<Rightarrow> redisClient \<Rightarrow> error + bytes option list" where
  "redis_MGet keys cl =
     (case fault cl of
        Some e \<Rightarrow> Inl e
      | None \<Rightarrow> Inr (map (\<lambda>k. map_option fst (db cl k)) keys))"

definition redis_Del :: "string list \<Rightarrow> redisClient \<Rightarrow> error option \<times> redisClient" where
  "redis_Del keys cl =
     (case fault cl of
        Some e \<Rightarrow> (Some e, cl)
      | None \<Rightarrow> (None, cl\<lparr>db := foldl (\<lambda>m k. m(k := None)) (db cl) keys\<rparr>))"

definition redis_Close :: "redisClient \<Rightarrow> error option \<times> redisClient" where
  "redis_Close cl = (closeErr cl, cl\<lparr>closed := True\<rparr>)"

text \<open>
  A pipeline queues commands and sends them with \<open>Exec\<close>, which returns the first
  error among the replies; the commands after a failed one are still run. The store
  refuses an \<open>MSET\<close> without a key/value pair, and an \<open>EXPIRE\<close> with a time that is
  not positive deletes the key.
\<close>

datatype redisCmd = CmdMSet "bytes list" | CmdExpire string duration

fun msetPairs :: "bytes list \<Rightarrow> (string \<rightharpoonup> bytes \<times> duration) \<Rightarrow> (string \<rightharpoonup> bytes \<times> duration)" where
  "msetPairs (k # v # rest) m = msetPairs rest (m(k \<mapsto> (v, 0)))"
| "msetPairs rest m = m"

fun runCmd ::
  "redisCmd \<Rightarrow> (string \<rightharpoonup> bytes \<times> duration) \<Rightarrow> error option \<times> (string \<rightharpoonup> bytes \<times> duration)" where
  "runCmd (CmdMSet args) m =
     (if args = [] \<or> odd (length args)
      then (Some (External ''ERR wrong number of arguments for mset''), m)
      else (None, msetPairs args m))"
| "runCmd (CmdExpire k d) m =
     (case m k of
        None \<Rightarrow> (None, m)
      | Some (v, ttl) \<Rightarrow> (None, if d \<le> 0 then m(k := None) else m(k \<mapsto> (v, d))))"

fun runCmds ::
  "redisCmd list \<Rightarrow> error option \<Rightarrow> (string \<rightharpoonup> bytes \<times> duration) \<Rightarrow>
     error option \<times> (string \<rightharpoonup> bytes \<times> duration)" where
  "runCmds [] firstErr m = (firstErr, m)"
| "runCmds (cmd # cmds) firstErr m =
     (case runCmd cmd m of
        (err, m') \<Rightarrow> runCmds cmds (case firstErr of Some e \<Rightarrow> Some e | None \<Rightarrow> err) m')"

definition Pipeline_MSet :: "bytes list \<Rightarrow> redisCmd list \<Rightarrow> error option \<times> redisCmd list" where
  "Pipeline_MSet args pipeline = (None, pipeline @ [CmdMSet args])"

definition Pipeline_Expire :: "string \<Rightarrow> duration \<Rightarrow> redisCmd list \<Rightarrow> redisCmd list" where
  "Pipeline_Expire key expiration pipeline = pipeline @ [CmdExpire key expiration]"

definition Pipeline_Exec :: "redisCmd list \<Rightarrow> redisClient \<Rightarrow> error option \<times> redisClient" where
  "Pipeline_Exec pipeline cl =
     (case fault cl of
        Some e \<Rightarrow> (Some e, cl)
      | None \<Rightarrow> (case runCmds pipeline None (db cl) of (err, m) \<Rightarrow> (err, cl\<lparr>db := m\<rparr>)))"

section \<open>The cache objects\<close>

text \<open>
  \<open>memoryCache\<close>, \<open>redisCache\<close> and \<open>redisClusterCache\<close> have the same fields. The
  client is a pointer shared with the provider, so the client's state is passed to
  every operation and returned by those that change it; the other fields form the
  record below; the field \<open>DefaultExpireTime\<close> is \<open>objDefaultExpireTime\<close> there, the
  package-level variable keeping the name. \<open>newObject\<close> is the object that the factory
  function returns at each call. The lines that the source prints when it skips an entry are not modelled.
  A Go map that is iterated is a list of its entries in the order of that iteration,
  which Go leaves unspecified: a statement for every list holds for every order.
\<close>

record 'a cacheObj =
  KeyPrefix :: string
  encoding :: "'a Encoding option"
  objDefaultExpireTime :: duration
  newObject :: "'a gvalue"

subsection \<open>memoryCache (memory.go)\<close>

definition memoryCache_Set ::
  "'a cacheObj \<Rightarrow> string \<Rightarrow> 'a gvalue \<Rightarrow> duration \<Rightarrow> ristretto \<Rightarrow>
     (error option \<times> ristretto) outcome" where
  "memoryCache_Set m key val expiration client =
     (case Marshal (encoding m) val of
        Panic \<Rightarrow> Panic
      | Return (Inl err) \<Rightarrow> Return (Some (Errorf (''encode error, key='' @ key) err), client)
      | Return (Inr buf0) \<Rightarrow>
          (let buf = (if length buf0 = 0 then NotFoundPlaceholderBytes else buf0) in
           case BuildCacheKey (KeyPrefix m) key of
             Inl err \<Rightarrow> Return (Some (Errorf (''build cache key error, key='' @ key) err), client)
           | Inr cacheKey \<Rightarrow>
               (case ristretto_SetWithTTL cacheKey (BytesVal buf) 0 expiration client of
                  (ok, client1) \<Rightarrow>
                    if \<not> ok then Return (Some (ErrNew ''SetWithTTL failed''), client1)
                    else Return (None, ristretto_Wait client1))))"

definition memoryCache_Get ::
  "'a cacheObj \<Rightarrow> string \<Rightarrow> 'a gvalue \<Rightarrow> ristretto \<Rightarrow> (error option \<times> 'a gvalue) outcome" where
  "memoryCache_Get m key val client =
     (case BuildCacheKey (KeyPrefix m) key of
        Inl err \<Rightarrow> Return (Some (Errorf (''build cache key error, key='' @ key) err), val)
      | Inr cacheKey \<Rightarrow>
          (case ristretto_Get cacheKey client of
             None \<Rightarrow> Return (Some CacheNotFound, val)
           | Some (OtherVal ty) \<Rightarrow> Return (Some (ErrNew (''data type error, key='' @ key)), val)
           | Some (BytesVal dataBytes) \<Rightarrow>
               if length dataBytes = 0 \<or> dataBytes = NotFoundPlaceholderBytes
               then Return (Some ErrPlaceholder, val)
               else (case Unmarshal (encoding m) dataBytes val of
                       Panic \<Rightarrow> Panic
                     | Return (Some err, val') \<Rightarrow>
                         Return (Some (Errorf (''decode error, key='' @ key) err), val')
                     | Return (None, val') \<Rightarrow> Return (None, val'))))"

definition memoryCache_Del ::
  "'a cacheObj \<Rightarrow> string list \<Rightarrow> ristretto \<Rightarrow> error option \<times> ristretto" where
  "memoryCache_Del m keys client =
     (case keys of
        [] \<Rightarrow> (None, client)
      | key # others \<Rightarrow>
          (case BuildCacheKey (KeyPrefix m) key of
             Inl err \<Rightarrow> (Some (Errorf (''build cache key error, key='' @ key) err), client)
           | Inr cacheKey \<Rightarrow> (None, ristretto_Del cacheKey client)))"

fun memoryCache_MultiSet ::
  "'a cacheObj \<Rightarrow> (string \<times> 'a gvalue) list \<Rightarrow> duration \<Rightarrow> ristretto \<Rightarrow>
     (error option \<times> ristretto) outcome" where
  "memoryCache_MultiSet m [] expiration client = Return (None, client)"
| "memoryCache_MultiSet m ((key, val) # valueMap) expiration client =
     (case memoryCache_Set m key val expiration client of
        Panic \<Rightarrow> Panic
      | Return (Some err, client1) \<Rightarrow> Return (Some err, client1)
      | Return (None, client1) \<Rightarrow> memoryCache_MultiSet m valueMap expiration client1)"

fun memoryCache_MultiGet ::
  "'a cacheObj \<Rightarrow> string list \<Rightarrow> (string \<rightharpoonup> 'a gvalue) \<Rightarrow> ristretto \<Rightarrow>
     (error option \<times> (string \<rightharpoonup> 'a gvalue)) outcome" where
  "memoryCache_MultiGet m [] valueMap client = Return (None, valueMap)"
| "memoryCache_MultiGet m (key # keys) valueMap client =
     (case memoryCache_Get m key (newObject m) client of
        Panic \<Rightarrow> Panic
      | Return (Some err, object) \<Rightarrow> memoryCache_MultiGet m keys valueMap client
      | Return (None, object) \<Rightarrow>
          memoryCache_MultiGet m keys (valueMap(key \<mapsto> object)) client)"

definition memoryCache_SetCacheWithNotFound ::
  "'a cacheObj \<Rightarrow> string \<Rightarrow> ristretto \<Rightarrow> error option \<times> ristretto" where
  "memoryCache_SetCacheWithNotFound m key client =
     (case BuildCacheKey (KeyPrefix m) key of
        Inl err \<Rightarrow> (Some (Errorf (''build cache key error, key='' @ key) err), client)
      | Inr cacheKey \<Rightarrow>
          (case ristretto_SetWithTTL cacheKey (BytesVal NotFoundPlaceholder) 0
                  DefaultNotFoundExpireTime client of
             (ok, client1) \<Rightarrow>
               if \<not> ok then (Some (ErrNew ''SetWithTTL failed''), client1)
               else (None, client1)))"

subsection \<open>redisCache\<close>

definition redisCache_Set ::
  "'a cacheObj \<Rightarrow> string \<Rightarrow> 'a gvalue \<Rightarrow> duration \<Rightarrow> redisClient \<Rightarrow>
     (error option \<times> redisClient) outcome" where
  "redisCache_Set c key val expiration client =
     (case Marshal (encoding c) val of
        Panic \<Rightarrow> Panic
      | Return (Inl err) \<Rightarrow> Return (Some (Errorf (''encode error, key='' @ key) err), client)
      | Return (Inr buf0) \<Rightarrow>
          (case BuildCacheKey (KeyPrefix c) key of
             Inl err \<Rightarrow> Return (Some (Errorf (''build cache key error, key='' @ key) err), client)
           | Inr cacheKey \<Rightarrow>
               (let buf = (if length buf0 = 0 then NotFoundPlaceholderBytes else buf0) in
                case redis_Set cacheKey buf expiration client of
                  (Some err, client1) \<Rightarrow>
                    Return (Some (Errorf (''client set error, cache key='' @ cacheKey) err), client1)
                | (None, client1) \<Rightarrow> Return (None, client1))))"

definition redisCache_Get ::
  "'a cacheObj \<Rightarrow> string \<Rightarrow> 'a gvalue \<Rightarrow> redisClient \<Rightarrow> (error option \<times> 'a gvalue) outcome" where
  "redisCache_Get c key val client =
     (case BuildCacheKey (KeyPrefix c) key of
        Inl err \<Rightarrow> Return (Some (Errorf (''build cache key error, key='' @ key) err), val)
      | Inr cacheKey \<Rightarrow>
          (case redis_Get cacheKey client of
             Inl err \<Rightarrow> Return (Some err, val)
           | Inr dataBytes \<Rightarrow>
               if length dataBytes = 0 \<or> dataBytes = NotFoundPlaceholderBytes
               then Return (Some ErrPlaceholder, val)
               else (case Unmarshal (encoding c) dataBytes val of
                       Panic \<Rightarrow> Panic
                     | Return (Some err, val') \<Rightarrow>
                         Return (Some (Errorf (''decode error, key='' @ key) err), val')
                     | Return (None, val') \<Rightarrow> Return (None, val'))))"

text \<open>
  The first loop of \<open>MultiSet\<close>: \<open>paris\<close> is the flat list of physical keys and
  encoded values, a key at every even position. An entry whose value does not encode
  or whose key cannot be built is left out.
\<close>

fun multiSet_paris ::
  "'a cacheObj \<Rightarrow> (string \<times> 'a gvalue) list \<Rightarrow> bytes list \<Rightarrow> bytes list outcome" where
  "multiSet_paris c [] paris = Return paris"
| "multiSet_paris c ((key, val) # valueMap) paris =
     (case Marshal (encoding c) val of
        Panic \<Rightarrow> Panic
      | Return (Inl err) \<Rightarrow> multiSet_paris c valueMap paris
      | Return (Inr buf) \<Rightarrow>
          (case BuildCacheKey (KeyPrefix c) key of
             Inl err \<Rightarrow> multiSet_paris c valueMap paris
           | Inr cacheKey \<Rightarrow> multiSet_paris c valueMap (paris @ [cacheKey, buf])))"

text \<open>
  The second loop, \<open>for i := 0; i < len(paris); i = i + 2\<close>, queues an \<open>Expire\<close> for
  \<open>paris[i]\<close>, which is always a byte slice.
\<close>

fun multiSet_expire :: "bytes list \<Rightarrow> duration \<Rightarrow> redisCmd list \<Rightarrow> redisCmd list" where
  "multiSet_expire (k # v # rest) expiration pipeline =
     multiSet_expire rest expiration (Pipeline_Expire k expiration pipeline)"
| "multiSet_expire [k] expiration pipeline = Pipeline_Expire k expiration pipeline"
| "multiSet_expire [] expiration pipeline = pipeline"

definition redisCache_MultiSet ::
  "'a cacheObj \<Rightarrow> (string \<times> 'a gvalue) list \<Rightarrow> duration \<Rightarrow> redisClient \<Rightarrow>
     (error option \<times> redisClient) outcome" where
  "redisCache_MultiSet c valueMap expiration client =
     (if length valueMap = 0 then Return (None, client)
      else case multiSet_paris c valueMap [] of
        Panic \<Rightarrow> Panic
      | Return paris \<Rightarrow>
          (case Pipeline_MSet paris [] of
             (Some err, pipeline) \<Rightarrow> Return (Some (Errorf ''pipeline mset error'' err), client)
           | (None, pipeline) \<Rightarrow>
               (case Pipeline_Exec (multiSet_expire paris expiration pipeline) client of
                  (Some err, client1) \<Rightarrow>
                    Return (Some (Errorf ''pipeline exec error'' err), client1)
                | (None, client1) \<Rightarrow> Return (None, client1))))"

text \<open>\<open>MultiGet\<close> resolves every key first and returns at the first key that fails.\<close>

fun multiGet_cacheKeys :: "string \<Rightarrow> string list \<Rightarrow> error + string list" where
  "multiGet_cacheKeys keyPrefix [] = Inr []"
| "multiGet_cacheKeys keyPrefix (key # keys) =
     (case BuildCacheKey keyPrefix key of
        Inl err \<Rightarrow> Inl (Errorf (''build cache key error, key='' @ key) err)
      | Inr cacheKey \<Rightarrow>
          (case multiGet_cacheKeys keyPrefix keys of
             Inl err \<Rightarrow> Inl err
           | Inr cacheKeys \<Rightarrow> Inr (cacheKey # cacheKeys)))"

text \<open>
  The loop over the reply: slot \<open>i\<close> of the reply belongs to \<open>cacheKeys[i]\<close>. The
  caller's map is updated in place (\<open>SetMapIndex\<close>); the model returns it.
\<close>

fun multiGet_inject ::
  "'a cacheObj \<Rightarrow> (string \<times> bytes option) list \<Rightarrow> (string \<rightharpoonup> 'a gvalue) \<Rightarrow>
     (error option \<times> (string \<rightharpoonup> 'a gvalue)) outcome" where
  "multiGet_inject c [] valueMap = Return (None, valueMap)"
| "multiGet_inject c ((cacheKey, None) # slots) valueMap = multiGet_inject c slots valueMap"
| "multiGet_inject c ((cacheKey, Some dataBytes) # slots) valueMap =
     (if length dataBytes = 0 \<or> dataBytes = NotFoundPlaceholderBytes
      then multiGet_inject c slots valueMap
      else case Unmarshal (encoding c) dataBytes (newObject c) of
        Panic \<Rightarrow> Panic
      | Return (Some err, object) \<Rightarrow> multiGet_inject c slots valueMap
      | Return (None, object) \<Rightarrow> multiGet_inject c slots (valueMap(cacheKey \<mapsto> object)))"

definition redisCache_MultiGet ::
  "'a cacheObj \<Rightarrow> string list \<Rightarrow> (string \<rightharpoonup> 'a gvalue) \<Rightarrow> redisClient \<Rightarrow>
     (error option \<times> (string \<rightharpoonup> 'a gvalue)) outcome" where
  "redisCache_MultiGet c keys valueMap client =
     (if length keys = 0 then Return (None, valueMap)
      else case multiGet_cacheKeys (KeyPrefix c) keys of
        Inl err \<Rightarrow> Return (Some err, valueMap)
      | Inr cacheKeys \<Rightarrow>
          (case redis_MGet cacheKeys client of
             Inl err \<Rightarrow> Return (Some (Errorf ''client mget error'' err), valueMap)
           | Inr vals \<Rightarrow> multiGet_inject c (zip cacheKeys vals) valueMap))"

text \<open>
  \<open>Del\<close> allocates \<open>cacheKeys\<close> with one slot per key, each the empty string, and
  fills the slot of every key that builds; the slot of a key that fails stays as
  allocated. The whole slice is passed to the client.
\<close>

definition del_cacheKeys :: "string \<Rightarrow> string list \<Rightarrow> string list" where
  "del_cacheKeys keyPrefix keys =
     map (\<lambda>key. case BuildCacheKey keyPrefix key of Inl err \<Rightarrow> [] | Inr cacheKey \<Rightarrow> cacheKey)
       keys"

definition redisCache_Del ::
  "'a cacheObj \<Rightarrow> string list \<Rightarrow> redisClient \<Rightarrow> error option \<times> redisClient" where
  "redisCache_Del c keys client =
     (if length keys = 0 then (None, client)
      else case redis_Del (del_cacheKeys (KeyPrefix c) keys) client of
        (Some err, client1) \<Rightarrow> (Some (Errorf ''client del error'' err), client1)
      | (None, client1) \<Rightarrow> (None, client1))"

definition redisCache_SetCacheWithNotFound ::
  "'a cacheObj \<Rightarrow> string \<Rightarrow> redisClient \<Rightarrow> error option \<times> redisClient" where
  "redisCache_SetCacheWithNotFound c key client =
     (case BuildCacheKey (KeyPrefix c) key of
        Inl err \<Rightarrow> (Some (Errorf (''build cache key error, key='' @ key) err), client)
      | Inr cacheKey \<Rightarrow> redis_Set cacheKey NotFoundPlaceholder DefaultNotFoundExpireTime client)"

subsection \<open>redisClusterCache\<close>

definition redisClusterCache_Get ::
  "'a cacheObj \<Rightarrow> string \<Rightarrow> 'a gvalue \<Rightarrow> redisClient \<Rightarrow> (error option \<times> 'a gvalue) outcome" where
  "redisClusterCache_Get c key val client =
     (case BuildCacheKey (KeyPrefix c) key of
        Inl err \<Rightarrow> Return (Some (Errorf (''build cache key error, key='' @ key) err), val)
      | Inr cacheKey \<Rightarrow>
          (case redis_Get cacheKey client of
             Inl err \<Rightarrow> Return (Some err, val)
           | Inr dataBytes \<Rightarrow>
               if length dataBytes = 0 \<or> dataBytes = NotFoundPlaceholderBytes
               then Return (Some ErrPlaceholder, val)
               else (case Unmarshal (encoding c) dataBytes val of
                       Panic \<Rightarrow> Panic
                     | Return (Some err, val') \<Rightarrow>
                         Return (Some (Errorf (''decode error, key='' @ key) err), val')
                     | Return (None, val') \<Rightarrow> Return (None, val'))))"

definition redisClusterCache_SetCacheWithNotFound ::
  "'a cacheObj \<Rightarrow> string \<Rightarrow> redisClient \<Rightarrow> error option \<times> redisClient" where
  "redisClusterCache_SetCacheWithNotFound c key client =
     (case BuildCacheKey (KeyPrefix c) key of
        Inl err \<Rightarrow> (Some (Errorf (''build cache key error, key='' @ key) err), client)
      | Inr cacheKey \<Rightarrow> redis_Set cacheKey NotFoundPlaceholder DefaultNotFoundExpireTime client)"

section \<open>Providers and the manager (provider.go)\<close>

text \<open>
  \<open>CacheType\<close> is a string type. The pointer fields of \<open>Config\<close> are options; its
  fields \<open>KeyPrefix\<close> and \<open>DefaultExpireTime\<close> are \<open>cfgKeyPrefix\<close> and
  \<open>cfgDefaultExpireTime\<close> here.
\<close>

definition MemoryCache :: string where
  "MemoryCache = ''memory''"

definition RedisCache :: string where
  "RedisCache = ''redis''"

definition RedisClusterCache :: string where
  "RedisClusterCache = ''redis_cluster''"

record MemoryConfig =
  NumCounters :: int
  MaxCost :: int
  BufferItems :: int

record RedisConfig =
  Addr :: string
  Password :: string
  DB :: int
  PoolSize :: int
  MinIdleConns :: int
  MaxIdleConns :: int
  ConnMaxLifetime :: duration
  DialTimeout :: duration
  ReadTimeout :: duration
  WriteTimeout :: duration

text \<open>
  The cluster configuration has \<open>Addrs\<close> and, but for \<open>DB\<close>, the fields of
  \<open>RedisConfig\<close> under the same names; a record field needs a name of its own, so
  they carry the prefix \<open>cluster\<close> here.
\<close>

record RedisClusterConfig =
  Addrs :: "string list"
  clusterPassword :: string
  clusterPoolSize :: int
  clusterMinIdleConns :: int
  clusterMaxIdleConns :: int
  clusterConnMaxLifetime :: duration
  clusterDialTimeout :: duration
  clusterReadTimeout :: duration
  clusterWriteTimeout :: duration

record Config =
  Type :: string
  cfgKeyPrefix :: string
  cfgDefaultExpireTime :: duration
  Memory :: "MemoryConfig option"
  Redis :: "RedisConfig option"
  RedisCluster :: "RedisClusterConfig option"

text \<open>
  A provider holds its cache object and its client, a pointer that may be nil.
\<close>

datatype 'a Provider =
    MemoryProvider "'a cacheObj" "ristretto option"
  | RedisProvider "'a cacheObj" "redisClient option"
  | RedisClusterProvider "'a cacheObj" "redisClient option"

fun Provider_Close :: "'a Provider \<Rightarrow> error option \<times> 'a Provider" where
  "Provider_Close (MemoryProvider cache None) = (None, MemoryProvider cache None)"
| "Provider_Close (MemoryProvider cache (Some client)) =
     (None, MemoryProvider cache (Some (ristretto_Close client)))"
| "Provider_Close (RedisProvider cache None) = (None, RedisProvider cache None)"
| "Provider_Close (RedisProvider cache (Some client)) =
     (case redis_Close client of (err, client1) \<Rightarrow> (err, RedisProvider cache (Some client1)))"
| "Provider_Close (RedisClusterProvider cache None) = (None, RedisClusterProvider cache None)"
| "Provider_Close (RedisClusterProvider cache (Some client)) =
     (case redis_Close client of
        (err, client1) \<Rightarrow> (err, RedisClusterProvider cache (Some client1)))"

text \<open>
  The defaults that \<open>newRedisProvider\<close> writes into \<open>config.Redis\<close> before it builds
  the client. \<open>Addr\<close> is not among the fields it looks at.
\<close>

definition redisConfig_defaults :: "RedisConfig \<Rightarrow> RedisConfig" where
  "redisConfig_defaults r0 =
     (let r1 = (if PoolSize r0 = 0 then r0\<lparr>PoolSize := 10\<rparr> else r0);
          r2 = (if MinIdleConns r1 = 0 then r1\<lparr>MinIdleConns := 2\<rparr> else r1);
          r3 = (if ConnMaxLifetime r2 = 0 then r2\<lparr>ConnMaxLifetime := Hour\<rparr> else r2);
          r4 = (if DialTimeout r3 = 0 then r3\<lparr>DialTimeout := 5 * Second\<rparr> else r3);
          r5 = (if ReadTimeout r4 = 0 then r4\<lparr>ReadTimeout := 3 * Second\<rparr> else r4)
      in if WriteTimeout r5 = 0 then r5\<lparr>WriteTimeout := 3 * Second\<rparr> else r5)"

text \<open>
  \<open>redis.NewClient\<close> belongs to the client library: it is the parameter \<open>NewClient\<close>,
  from the options to a client. The options are the fields of the configuration, copied
  one by one.
\<close>

definition newRedisProvider ::
  "(RedisConfig \<Rightarrow> redisClient) \<Rightarrow> Config \<Rightarrow> 'a Encoding option \<Rightarrow> 'a gvalue \<Rightarrow>
     error + 'a Provider" where
  "newRedisProvider NewClient config enc newObj =
     (case Redis config of
        None \<Rightarrow> Inl (ErrNew ''redis config must not be nil'')
      | Some r0 \<Rightarrow>
          (let redisConfig = redisConfig_defaults r0;
               client = NewClient redisConfig;
               cache = \<lparr>KeyPrefix = cfgKeyPrefix config, encoding = enc,
                        objDefaultExpireTime = cfgDefaultExpireTime config,
                        newObject = newObj\<rparr>
           in Inr (RedisProvider cache (Some client))))"

definition clusterConfig_defaults :: "RedisClusterConfig \<Rightarrow> RedisClusterConfig" where
  "clusterConfig_defaults r0 =
     (let r1 = (if clusterPoolSize r0 = 0 then r0\<lparr>clusterPoolSize := 10\<rparr> else r0);
          r2 = (if clusterMinIdleConns r1 = 0 then r1\<lparr>clusterMinIdleConns := 2\<rparr> else r1);
          r3 = (if clusterConnMaxLifetime r2 = 0
                then r2\<lparr>clusterConnMaxLifetime := Hour\<rparr> else r2);
          r4 = (if clusterDialTimeout r3 = 0
                then r3\<lparr>clusterDialTimeout := 5 * Second\<rparr> else r3);
          r5 = (if clusterReadTimeout r4 = 0
                then r4\<lparr>clusterReadTimeout := 3 * Second\<rparr> else r4)
      in if clusterWriteTimeout r5 = 0 then r5\<lparr>clusterWriteTimeout := 3 * Second\<rparr> else r5)"

definition newRedisClusterProvider ::
  "(RedisClusterConfig \<Rightarrow> redisClient) \<Rightarrow> Config \<Rightarrow> 'a Encoding option \<Rightarrow> 'a gvalue \<Rightarrow>
     error + 'a Provider" where
  "newRedisClusterProvider NewClusterClient config enc newObj =
     (case RedisCluster config of
        None \<Rightarrow> Inl (ErrNew ''redis cluster config must not be nil'')
      | Some r0 \<Rightarrow>
          if length (Addrs r0) = 0
          then Inl (ErrNew ''redis cluster address list must not be empty'')
          else
            (let clusterConfig = clusterConfig_defaults r0;
                 client = NewClusterClient clusterConfig;
                 cache = \<lparr>KeyPrefix = cfgKeyPrefix config, encoding = enc,
                          objDefaultExpireTime = cfgDefaultExpireTime config,
                          newObject = newObj\<rparr>
             in Inr (RedisClusterProvider cache (Some client))))"

text \<open>
  The manager's map from name to provider, as the list of its entries (names distinct).
  \<open>CloseAll\<close> ranges over the map: the list is the order of that iteration.
\<close>

record 'a Manager =
  providers :: "(string \<times> 'a Provider) list"

definition NewManager :: "'a Manager" where
  "NewManager = \<lparr>providers = []\<rparr>"

fun setEntry :: "string \<Rightarrow> 'p \<Rightarrow> (string \<times> 'p) list \<Rightarrow> (string \<times> 'p) list" where
  "setEntry name p [] = [(name, p)]"
| "setEntry name p ((n, q) # rest) =
     (if n = name then (name, p) # rest else (n, q) # setEntry name p rest)"

definition Manager_AddProvider :: "string \<Rightarrow> 'a Provider \<Rightarrow> 'a Manager \<Rightarrow> 'a Manager" where
  "Manager_AddProvider name provider m = m\<lparr>providers := setEntry name provider (providers m)\<rparr>"

fun closeAll_loop ::
  "(string \<times> 'a Provider) list \<Rightarrow> error option \<Rightarrow>
     error option \<times> (string \<times> 'a Provider) list" where
  "closeAll_loop [] lastErr = (lastErr, [])"
| "closeAll_loop ((name, provider) # rest) lastErr =
     (case Provider_Close provider of
        (err, provider1) \<Rightarrow>
          (case closeAll_loop rest
                  (case err of
                     Some e \<Rightarrow> Some (Errorf (''close provider failed, name='' @ name) e)
                   | None \<Rightarrow> lastErr) of
             (r, rest1) \<Rightarrow> (r, (name, provider1) # rest1)))"

definition Manager_CloseAll :: "'a Manager \<Rightarrow> error option \<times> 'a Manager" where
  "Manager_CloseAll m =
     (case closeAll_loop (providers m) None of
        (lastErr, ps) \<Rightarrow> (lastErr, m\<lparr>providers := ps\<rparr>))"

section \<open>Concrete inputs\<close>

text \<open>
  The inputs at which the operations are evaluated below: a codec on strings that
  writes a string as its own bytes and refuses one value, a pointer to a string with
  neither binary capability, a cache object with the prefix \<open>app\<close>, and a fresh
  engine and a fresh remote store.
\<close>

definition rawEncoding :: "string Encoding" where
  "rawEncoding =
     \<lparr>enc_Marshal = (\<lambda>s. if s = ''poison'' then Inl (External ''marshal failed'') else Inr s),
      enc_Unmarshal = (\<lambda>data s. (None, data))\<rparr>"

definition ptrTo :: "string \<Rightarrow> string gvalue" where
  "ptrTo s = \<lparr>kind = Ptr, content = s, asBinaryMarshaler = None, asBinaryUnmarshaler = None\<rparr>"

definition appCache :: "string cacheObj" where
  "appCache =
     \<lparr>KeyPrefix = ''app'', encoding = Some rawEncoding, objDefaultExpireTime = 10 * Minute,
      newObject = ptrTo []\<rparr>"

definition emptyEngine :: ristretto where
  "emptyEngine = \<lparr>rs_store = Map.empty, rs_setBuf = [], rs_isClosed = False\<rparr>"

definition emptyRedis :: redisClient where
  "emptyRedis = \<lparr>db = Map.empty, fault = None, closeErr = None, closed = False\<rparr>"

text \<open>
  A single-node configuration whose address is empty, a cluster configuration whose
  address list is empty, and every tunable left at zero.
\<close>

definition emptyAddrConfig :: Config where
  "emptyAddrConfig =
     \<lparr>Type = RedisCache, cfgKeyPrefix = ''app'', cfgDefaultExpireTime = Hour, Memory = None,
      Redis = Some \<lparr>Addr = [], Password = [], DB = 0, PoolSize = 0, MinIdleConns = 0,
                    MaxIdleConns = 0, ConnMaxLifetime = 0, DialTimeout = 0, ReadTimeout = 0,
                    WriteTimeout = 0\<rparr>,
      RedisCluster = None\<rparr>"

definition emptyAddrsConfig :: Config where
  "emptyAddrsConfig =
     \<lparr>Type = RedisClusterCache, cfgKeyPrefix = ''app'', cfgDefaultExpireTime = Hour,
      Memory = None, Redis = None,
      RedisCluster = Some \<lparr>Addrs = [], clusterPassword = [], clusterPoolSize = 0,
                    clusterMinIdleConns = 0, clusterMaxIdleConns = 0,
                    clusterConnMaxLifetime = 0, clusterDialTimeout = 0,
                    clusterReadTimeout = 0, clusterWriteTimeout = 0\<rparr>\<rparr>"

text \<open>
  A remote client whose \<open>Close\<close> fails, and two managers: one whose first and last
  providers fail to close, one whose providers all close.
\<close>

definition failingClient :: "string \<Rightarrow> redisClient" where
  "failingClient msg = emptyRedis\<lparr>closeErr := Some (External msg)\<rparr>"

definition failingManager :: "string Manager" where
  "failingManager =
     Manager_AddProvider ''c''
       (RedisClusterProvider appCache (Some (failingClient ''cluster close failed'')))
       (Manager_AddProvider ''b'' (MemoryProvider appCache (Some emptyEngine))
          (Manager_AddProvider ''a''
             (RedisProvider appCache (Some (failingClient ''redis close failed'')))
             NewManager))"

definition quietManager :: "string Manager" where
  "quietManager =
     Manager_AddProvider ''b'' (RedisProvider appCache (Some emptyRedis))
       (Manager_AddProvider ''a'' (MemoryProvider appCache (Some emptyEngine)) NewManager)"

section \<open>Properties of the key builder\<close>

text \<open>
  C5. For non-empty prefix and key the physical key is prefix, a colon, key; for an
  empty prefix the (non-empty) key is returned unchanged, with no separator; an empty
  key fails with the empty-key error whatever the prefix is.
\<close>

theorem C5_BuildCacheKey:
  "(keyPrefix \<noteq> '''' \<and> key \<noteq> '''' \<longrightarrow>
      BuildCacheKey keyPrefix key = Inr (keyPrefix @ '':'' @ key))
   \<and> (key \<noteq> '''' \<longrightarrow> BuildCacheKey '''' key = Inr key)
   \<and> BuildCacheKey keyPrefix '''' = Inl (ErrNew ''cache: key must not be empty'')"
  by (simp add: BuildCacheKey_def)

theorem C5_BuildCacheKey_witness:
  "BuildCacheKey ''app'' ''u:1'' = Inr ''app:u:1''
   \<and> BuildCacheKey '''' ''u:1'' = Inr ''u:1''
   \<and> BuildCacheKey ''app'' '''' = Inl (ErrNew ''cache: key must not be empty'')"
  using C5_BuildCacheKey [of "''app''" "''u:1''"] by simp

section \<open>Properties of the encoding layer\<close>

lemma Marshal_not_pointer: "\<not> isPointer v \<Longrightarrow> Marshal e v = Return (Inl ErrNotAPointer)"
  by (simp add: Marshal_def)

lemma Unmarshal_not_pointer:
  "\<not> isPointer v \<Longrightarrow> Unmarshal e data v = Return (Some ErrNotAPointer, v)"
  by (simp add: Unmarshal_def)

text \<open>
  C10. With a nil encoding and a pointer value that has no binary marshaler, Marshal
  panics instead of returning an error, and Unmarshal does the same for a pointer
  target with no binary unmarshaler. For a pointer argument the call returns exactly
  when an encoding is supplied or the argument has the raw byte capability.
\<close>

theorem C10_nil_encoding_panics:
  "(isPointer v \<and> asBinaryMarshaler v = None \<longrightarrow> Marshal None v = Panic)
   \<and> (isPointer t \<and> asBinaryUnmarshaler t = None \<longrightarrow> Unmarshal None data t = Panic)
   \<and> (isPointer v \<longrightarrow>
        ((\<exists>r. Marshal e v = Return r) \<longleftrightarrow> (e \<noteq> None \<or> asBinaryMarshaler v \<noteq> None)))
   \<and> (isPointer t \<longrightarrow>
        ((\<exists>r. Unmarshal e data t = Return r) \<longleftrightarrow> (e \<noteq> None \<or> asBinaryUnmarshaler t \<noteq> None)))"
proof -
  have m: "isPointer v \<Longrightarrow>
      (\<exists>r. Marshal e v = Return r) \<longleftrightarrow> (e \<noteq> None \<or> asBinaryMarshaler v \<noteq> None)"
    by (auto simp: Marshal_def split: option.splits sum.splits)
  have u: "isPointer t \<Longrightarrow>
      (\<exists>r. Unmarshal e data t = Return r) \<longleftrightarrow> (e \<noteq> None \<or> asBinaryUnmarshaler t \<noteq> None)"
    by (auto simp: Unmarshal_def split: option.splits sum.splits prod.splits)
  show ?thesis
    using m u by (simp add: Marshal_def Unmarshal_def)
qed

theorem C10_nil_encoding_panics_witness:
  "Marshal None \<lparr>kind = Ptr, content = (0::nat), asBinaryMarshaler = None,
       asBinaryUnmarshaler = None\<rparr> = Panic
   \<and> Unmarshal None ''{}'' \<lparr>kind = Ptr, content = (0::nat), asBinaryMarshaler = None,
       asBinaryUnmarshaler = None\<rparr> = Panic"
  using C10_nil_encoding_panics [of
      "\<lparr>kind = Ptr, content = (0::nat), asBinaryMarshaler = None, asBinaryUnmarshaler = None\<rparr>"
      "\<lparr>kind = Ptr, content = (0::nat), asBinaryMarshaler = None, asBinaryUnmarshaler = None\<rparr>"
      "''{}''" None]
  by (simp add: isPointer_def)

section \<open>Facts about the constants and the concrete inputs\<close>

lemma DefaultNotFoundExpireTime_pos: "0 < DefaultNotFoundExpireTime"
  by (simp add: DefaultNotFoundExpireTime_def Minute_def Second_def)

lemma Hour_pos: "0 < Hour"
  by (simp add: Hour_def Minute_def Second_def)

lemma BuildCacheKey_nonempty:
  "key \<noteq> [] \<Longrightarrow> \<exists>cacheKey. BuildCacheKey keyPrefix key = Inr cacheKey"
  by (simp add: BuildCacheKey_def)

lemma Marshal_raw:
  "Marshal (Some rawEncoding) (ptrTo s) =
     Return (if s = ''poison'' then Inl (External ''marshal failed'') else Inr s)"
  by (simp add: Marshal_def rawEncoding_def ptrTo_def isPointer_def)

lemma Unmarshal_raw: "Unmarshal (Some rawEncoding) data (ptrTo s) = Return (None, ptrTo data)"
  by (simp add: Unmarshal_def rawEncoding_def ptrTo_def isPointer_def)

section \<open>The negative-cache write\<close>

lemma redis_Set_placeholder:
  "fault client = None \<Longrightarrow>
   redis_Set cacheKey NotFoundPlaceholder DefaultNotFoundExpireTime client =
     (None, client\<lparr>db := (db client)(cacheKey \<mapsto>
        (NotFoundPlaceholderBytes, DefaultNotFoundExpireTime))\<rparr>)"
  using DefaultNotFoundExpireTime_pos
  by (simp add: redis_Set_def NotFoundPlaceholderBytes_def)

lemma redis_Set_ok_fault: "redis_Set k v t client = (None, client1) \<Longrightarrow> fault client = None"
  by (auto simp: redis_Set_def split: option.splits)

lemma memory_SetCacheWithNotFound_ok:
  assumes "BuildCacheKey (KeyPrefix m) key = Inr cacheKey"
    and "memoryCache_SetCacheWithNotFound m key client = (None, client1)"
  shows "rs_setBuf client1 = rs_setBuf client @
           [ItemSet cacheKey (BytesVal NotFoundPlaceholderBytes) DefaultNotFoundExpireTime]"
    and "rs_store (ristretto_Wait client1) cacheKey =
           Some (BytesVal NotFoundPlaceholderBytes, DefaultNotFoundExpireTime)"
  using assms DefaultNotFoundExpireTime_pos
  by (auto simp: memoryCache_SetCacheWithNotFound_def ristretto_SetWithTTL_def
      ristretto_Wait_def ristretto_processItems_def NotFoundPlaceholderBytes_def
      split: if_splits option.splits)

lemma memory_SetCacheWithNotFound_open:
  assumes "BuildCacheKey (KeyPrefix m) key = Inr cacheKey" and "\<not> rs_isClosed client"
  shows "fst (memoryCache_SetCacheWithNotFound m key client) = None"
  using assms DefaultNotFoundExpireTime_pos
  by (simp add: memoryCache_SetCacheWithNotFound_def ristretto_SetWithTTL_def
      split: option.splits)

text \<open>
  C6. For a non-empty key, on each of the three backends, a successful
  SetCacheWithNotFound has written the placeholder bytes under the physical key with
  the time-to-live DefaultNotFoundExpireTime: the remote stores hold exactly that
  entry, and the in-process engine has been handed exactly that item, which is what
  it stores once its buffer is processed. The call succeeds whenever the transport is
  sound, respectively the engine is open. Neither the default time-to-live of the
  cache object nor any other duration enters.
\<close>

theorem C6_SetCacheWithNotFound_placeholder_ttl:
  assumes "key \<noteq> []"
  shows "\<exists>cacheKey. BuildCacheKey (KeyPrefix c) key = Inr cacheKey
    \<and> (\<forall>client1. redisCache_SetCacheWithNotFound c key client = (None, client1) \<longrightarrow>
          client1 = client\<lparr>db := (db client)(cacheKey \<mapsto>
             (NotFoundPlaceholderBytes, DefaultNotFoundExpireTime))\<rparr>)
    \<and> (fault client = None \<longrightarrow> fst (redisCache_SetCacheWithNotFound c key client) = None)
    \<and> (\<forall>client1. redisClusterCache_SetCacheWithNotFound c key client = (None, client1) \<longrightarrow>
          client1 = client\<lparr>db := (db client)(cacheKey \<mapsto>
             (NotFoundPlaceholderBytes, DefaultNotFoundExpireTime))\<rparr>)
    \<and> (fault client = None \<longrightarrow>
          fst (redisClusterCache_SetCacheWithNotFound c key client) = None)
    \<and> (\<forall>engine1. memoryCache_SetCacheWithNotFound c key engine = (None, engine1) \<longrightarrow>
          rs_setBuf engine1 = rs_setBuf engine @
            [ItemSet cacheKey (BytesVal NotFoundPlaceholderBytes) DefaultNotFoundExpireTime]
          \<and> rs_store (ristretto_Wait engine1) cacheKey =
               Some (BytesVal NotFoundPlaceholderBytes, DefaultNotFoundExpireTime))
    \<and> (\<not> rs_isClosed engine \<longrightarrow> fst (memoryCache_SetCacheWithNotFound c key engine) = None)"
proof -
  from assms obtain cacheKey where k: "BuildCacheKey (KeyPrefix c) key = Inr cacheKey"
    using BuildCacheKey_nonempty by blast
  have r: "redisCache_SetCacheWithNotFound c key client = (None, client1) \<Longrightarrow>
      client1 = client\<lparr>db := (db client)(cacheKey \<mapsto>
         (NotFoundPlaceholderBytes, DefaultNotFoundExpireTime))\<rparr>" for client1
    using k
      redis_Set_ok_fault [of cacheKey NotFoundPlaceholder DefaultNotFoundExpireTime client client1]
      redis_Set_placeholder [of client cacheKey]
    by (simp add: redisCache_SetCacheWithNotFound_def)
  have r2: "fault client = None \<Longrightarrow> fst (redisCache_SetCacheWithNotFound c key client) = None"
    using k redis_Set_placeholder [of client cacheKey]
    by (simp add: redisCache_SetCacheWithNotFound_def)
  have q: "redisClusterCache_SetCacheWithNotFound c key client = (None, client1) \<Longrightarrow>
      client1 = client\<lparr>db := (db client)(cacheKey \<mapsto>
         (NotFoundPlaceholderBytes, DefaultNotFoundExpireTime))\<rparr>" for client1
    using k
      redis_Set_ok_fault [of cacheKey NotFoundPlaceholder DefaultNotFoundExpireTime client client1]
      redis_Set_placeholder [of client cacheKey]
    by (simp add: redisClusterCache_SetCacheWithNotFound_def)
  have q2: "fault client = None \<Longrightarrow>
      fst (redisClusterCache_SetCacheWithNotFound c key client) = None"
    using k redis_Set_placeholder [of client cacheKey]
    by (simp add: redisClusterCache_SetCacheWithNotFound_def)
  have m: "memoryCache_SetCacheWithNotFound c key engine = (None, engine1) \<Longrightarrow>
      rs_setBuf engine1 = rs_setBuf engine @
        [ItemSet cacheKey (BytesVal NotFoundPlaceholderBytes) DefaultNotFoundExpireTime]
      \<and> rs_store (ristretto_Wait engine1) cacheKey =
           Some (BytesVal NotFoundPlaceholderBytes, DefaultNotFoundExpireTime)" for engine1
    using memory_SetCacheWithNotFound_ok [OF k] by simp
  have m2: "\<not> rs_isClosed engine \<Longrightarrow>
      fst (memoryCache_SetCacheWithNotFound c key engine) = None"
    by (rule memory_SetCacheWithNotFound_open [OF k])
  show ?thesis
    by (rule exI [of _ cacheKey]) (intro conjI allI impI k r r2 q q2 m m2; assumption)
qed

theorem C6_SetCacheWithNotFound_placeholder_ttl_witness:
  "redisCache_SetCacheWithNotFound appCache ''u:2'' emptyRedis =
     (None, emptyRedis\<lparr>db := [''app:u:2'' \<mapsto> (''*'', 600000000000)]\<rparr>)
   \<and> redisClusterCache_SetCacheWithNotFound appCache ''u:2'' emptyRedis =
     (None, emptyRedis\<lparr>db := [''app:u:2'' \<mapsto> (''*'', 600000000000)]\<rparr>)
   \<and> rs_setBuf (snd (memoryCache_SetCacheWithNotFound appCache ''u:2'' emptyEngine)) =
       [ItemSet ''app:u:2'' (BytesVal ''*'') 600000000000]
   \<and> rs_store (ristretto_Wait (snd (memoryCache_SetCacheWithNotFound appCache ''u:2''
        emptyEngine))) ''app:u:2'' = Some (BytesVal ''*'', 600000000000)"
  using C6_SetCacheWithNotFound_placeholder_ttl [of "''u:2''" appCache emptyRedis emptyEngine]
  by (simp add: redisCache_SetCacheWithNotFound_def redisClusterCache_SetCacheWithNotFound_def
      memoryCache_SetCacheWithNotFound_def BuildCacheKey_def appCache_def emptyRedis_def
      emptyEngine_def redis_Set_def ristretto_SetWithTTL_def ristretto_Wait_def
      ristretto_processItems_def NotFoundPlaceholder_def NotFoundPlaceholderBytes_def
      DefaultNotFoundExpireTime_def Minute_def Second_def)

section \<open>Reading a negative-cache entry back\<close>

text \<open>
  On the remote backends the read that follows a successful negative-cache write
  meets the placeholder and leaves the target as it was.
\<close>

lemma redisCache_placeholder_then_Get:
  assumes "redisCache_SetCacheWithNotFound c key client = (None, client1)"
  shows "redisCache_Get c key val client1 = Return (Some ErrPlaceholder, val)"
  using assms DefaultNotFoundExpireTime_pos
  by (auto simp: redisCache_SetCacheWithNotFound_def redisCache_Get_def redis_Set_def
      redis_Get_def NotFoundPlaceholderBytes_def
      split: sum.splits option.splits if_splits)

lemma redisClusterCache_placeholder_then_Get:
  assumes "redisClusterCache_SetCacheWithNotFound c key client = (None, client1)"
  shows "redisClusterCache_Get c key val client1 = Return (Some ErrPlaceholder, val)"
  using assms DefaultNotFoundExpireTime_pos
  by (auto simp: redisClusterCache_SetCacheWithNotFound_def redisClusterCache_Get_def
      redis_Set_def redis_Get_def NotFoundPlaceholderBytes_def
      split: sum.splits option.splits if_splits)

text \<open>
  The in-process read meets the placeholder as soon as the engine shows it, and then
  leaves the target as it was.
\<close>

lemma memoryCache_Get_placeholder:
  assumes "BuildCacheKey (KeyPrefix m) key = Inr cacheKey"
    and "ristretto_Get cacheKey client = Some (BytesVal NotFoundPlaceholderBytes)"
  shows "memoryCache_Get m key val client = Return (Some ErrPlaceholder, val)"
  using assms by (simp add: memoryCache_Get_def)

text \<open>
  The in-process \<open>Set\<close> ends with \<open>Wait\<close>, so what it wrote is stored when it
  returns.
\<close>

lemma memoryCache_Set_stored:
  assumes "Marshal (encoding m) val = Return (Inr buf)"
    and "BuildCacheKey (KeyPrefix m) key = Inr cacheKey"
    and "\<not> rs_isClosed client" and "0 \<le> expiration"
  shows "\<exists>client1. memoryCache_Set m key val expiration client = Return (None, client1)
           \<and> rs_store client1 cacheKey =
               Some (BytesVal (if length buf = 0 then NotFoundPlaceholderBytes else buf),
                     expiration)
           \<and> \<not> rs_isClosed client1"
  using assms
  by (simp add: memoryCache_Set_def ristretto_SetWithTTL_def ristretto_Wait_def
      ristretto_processItems_def split: option.splits)

text \<open>
  The in-process negative-cache write of a key that the engine does not hold only
  queues the item. Until the engine's worker has handled it, the read misses.
\<close>

lemma memoryCache_placeholder_then_Get_miss:
  assumes "BuildCacheKey (KeyPrefix m) key = Inr cacheKey"
    and "rs_store client cacheKey = None" and "\<not> rs_isClosed client"
  shows "memoryCache_SetCacheWithNotFound m key client =
           (None, client\<lparr>rs_setBuf := rs_setBuf client @
              [ItemSet cacheKey (BytesVal NotFoundPlaceholder) DefaultNotFoundExpireTime]\<rparr>)"
    and "memoryCache_Get m key val (snd (memoryCache_SetCacheWithNotFound m key client)) =
           Return (Some CacheNotFound, val)"
  using assms DefaultNotFoundExpireTime_pos
  by (simp_all add: memoryCache_SetCacheWithNotFound_def memoryCache_Get_def
      ristretto_SetWithTTL_def ristretto_Get_def)

text \<open>
  C1. The in-process SetCacheWithNotFound does not wait for the engine, as the
  in-process Set does. On a fresh engine, with prefix \<open>app\<close>, SetCacheWithNotFound of
  \<open>u:2\<close> succeeds and leaves its item in the set buffer; the Get of \<open>u:2\<close> that
  follows at once returns CacheNotFound, the backend miss, with the target untouched.
  Had the engine been waited for, the same Get would return ErrPlaceholder.
\<close>

theorem C1_memory_placeholder_write_not_awaited:
  "memoryCache_SetCacheWithNotFound appCache ''u:2'' emptyEngine =
     (None, emptyEngine\<lparr>rs_setBuf :=
        [ItemSet ''app:u:2'' (BytesVal NotFoundPlaceholderBytes) DefaultNotFoundExpireTime]\<rparr>)
   \<and> memoryCache_Get appCache ''u:2'' (ptrTo ''old'')
        (snd (memoryCache_SetCacheWithNotFound appCache ''u:2'' emptyEngine)) =
      Return (Some CacheNotFound, ptrTo ''old'')
   \<and> memoryCache_Get appCache ''u:2'' (ptrTo ''old'')
        (ristretto_Wait (snd (memoryCache_SetCacheWithNotFound appCache ''u:2'' emptyEngine))) =
      Return (Some ErrPlaceholder, ptrTo ''old'')"
  using DefaultNotFoundExpireTime_pos
  by (simp add: memoryCache_SetCacheWithNotFound_def memoryCache_Get_def BuildCacheKey_def
      appCache_def emptyEngine_def ristretto_SetWithTTL_def ristretto_Get_def
      ristretto_Wait_def ristretto_processItems_def NotFoundPlaceholderBytes_def)

section \<open>Values whose encoding is empty\<close>

text \<open>
  Both \<open>Set\<close> bodies put the placeholder in the place of an empty encoding, and the
  read that follows reports the placeholder.
\<close>

lemma redisCache_Set_empty_encoding:
  assumes "Marshal (encoding c) val = Return (Inr [])"
    and "BuildCacheKey (KeyPrefix c) key = Inr cacheKey"
    and "fault client = None"
  shows "\<exists>client1. redisCache_Set c key val expiration client = Return (None, client1)
           \<and> map_option fst (db client1 cacheKey) = Some NotFoundPlaceholderBytes
           \<and> redisCache_Get c key target client1 = Return (Some ErrPlaceholder, target)"
  using assms by (simp add: redisCache_Set_def redis_Set_def redisCache_Get_def redis_Get_def)

lemma memoryCache_Set_empty_encoding:
  assumes "Marshal (encoding m) val = Return (Inr [])"
    and "BuildCacheKey (KeyPrefix m) key = Inr cacheKey"
    and "\<not> rs_isClosed client" and "0 \<le> expiration"
  shows "\<exists>client1. memoryCache_Set m key val expiration client = Return (None, client1)
           \<and> rs_store client1 cacheKey = Some (BytesVal NotFoundPlaceholderBytes, expiration)
           \<and> memoryCache_Get m key target client1 = Return (Some ErrPlaceholder, target)"
proof -
  from memoryCache_Set_stored [OF assms] obtain client1
    where s: "memoryCache_Set m key val expiration client = Return (None, client1)"
      and st: "rs_store client1 cacheKey = Some (BytesVal NotFoundPlaceholderBytes, expiration)"
      and op: "\<not> rs_isClosed client1"
    by auto
  from st op have "ristretto_Get cacheKey client1 = Some (BytesVal NotFoundPlaceholderBytes)"
    by (simp add: ristretto_Get_def)
  from memoryCache_Get_placeholder [OF assms(2) this] s st show ?thesis
    by simp
qed

text \<open>
  C2. The remote MultiSet appends the encoded bytes to the batch as they are; the
  test for an empty encoding that Set makes is missing there. With the string codec,
  prefix \<open>app\<close> and a fresh store, MultiSet of the single entry \<open>k\<close> with the empty
  string leaves the empty byte sequence under \<open>app:k\<close>, where Set of the same value
  leaves the placeholder.
\<close>

theorem C2_redis_MultiSet_keeps_empty_bytes:
  "(\<exists>client1. redisCache_MultiSet appCache [(''k'', ptrTo [])] Hour emptyRedis
        = Return (None, client1)
      \<and> db client1 ''app:k'' = Some ([], Hour))
   \<and> (\<exists>client1. redisCache_Set appCache ''k'' (ptrTo []) Hour emptyRedis
        = Return (None, client1)
      \<and> db client1 ''app:k'' = Some (NotFoundPlaceholderBytes, Hour))
   \<and> NotFoundPlaceholderBytes = ''*''"
  using Hour_pos
  by (simp add: redisCache_MultiSet_def redisCache_Set_def Marshal_raw appCache_def
      BuildCacheKey_def Pipeline_MSet_def Pipeline_Exec_def Pipeline_Expire_def
      emptyRedis_def redis_Set_def NotFoundPlaceholderBytes_def NotFoundPlaceholder_def)

section \<open>Batch writes with an entry that does not encode\<close>

text \<open>
  In the remote MultiSet an entry whose value does not encode contributes nothing to
  the batch, wherever it stands in the iteration, and the other entries are collected
  as if it were not there.
\<close>

lemma multiSet_paris_skips:
  assumes "Marshal (encoding c) val = Return (Inl err)"
  shows "multiSet_paris c (before @ (key, val) # after) paris
           = multiSet_paris c (before @ after) paris"
  using assms
  by (induction before arbitrary: paris) (auto split: outcome.splits sum.splits)

text \<open>
  The in-process MultiSet returns the error of the first entry that fails; the entries
  that come later in the iteration are not attempted.
\<close>

lemma memoryCache_MultiSet_aborts:
  assumes "memoryCache_Set m key val expiration client = Return (Some err, client1)"
  shows "memoryCache_MultiSet m ((key, val) # valueMap) expiration client
           = Return (Some err, client1)"
  using assms by simp

lemma memoryCache_Set_encode_error:
  assumes "Marshal (encoding m) val = Return (Inl err)"
  shows "memoryCache_Set m key val expiration client =
           Return (Some (Errorf (''encode error, key='' @ key) err), client)"
  using assms by (simp add: memoryCache_Set_def)

text \<open>
  Wherever the entry that does not encode stands in the iteration, the in-process
  MultiSet does not return nil.
\<close>

lemma memoryCache_MultiSet_never_nil:
  assumes "Marshal (encoding m) val = Return (Inl err)"
  shows "memoryCache_MultiSet m (before @ (key, val) # after) expiration client
           \<noteq> Return (None, client1)"
proof (induction before arbitrary: client)
  case Nil
  show ?case using memoryCache_Set_encode_error [OF assms] by simp
next
  case (Cons entry before)
  obtain k v where entry: "entry = (k, v)" by (cases entry)
  show ?case
  proof (cases "memoryCache_Set m k v expiration client")
    case Panic
    with entry show ?thesis by simp
  next
    case (Return res)
    obtain e client2 where res: "res = (e, client2)" by (cases res)
    show ?thesis
      using Return res entry Cons.IH [of client2] by (cases e) simp_all
  qed
qed

text \<open>
  C3. With the string codec and prefix \<open>app\<close>, a map with the entries \<open>a\<close>, whose
  value the codec refuses, and \<open>b\<close>, iterated in that order: the in-process MultiSet
  returns the encode error of \<open>a\<close> and the engine is as before, so \<open>b\<close> is not
  written; the remote MultiSet returns nil and has written \<open>b\<close>.
\<close>

theorem C3_memory_MultiSet_aborts_on_poisoned_entry:
  "memoryCache_MultiSet appCache [(''a'', ptrTo ''poison''), (''b'', ptrTo ''B'')] Hour
       emptyEngine
     = Return (Some (Errorf ''encode error, key=a'' (External ''marshal failed'')), emptyEngine)
   \<and> (\<exists>client1.
         redisCache_MultiSet appCache [(''a'', ptrTo ''poison''), (''b'', ptrTo ''B'')] Hour
           emptyRedis = Return (None, client1)
         \<and> db client1 ''app:b'' = Some (''B'', Hour))"
  using Hour_pos
  by (simp add: memoryCache_Set_def redisCache_MultiSet_def Marshal_raw appCache_def
      BuildCacheKey_def Pipeline_MSet_def Pipeline_Exec_def Pipeline_Expire_def
      emptyRedis_def)

section \<open>The keys of a batch read\<close>

text \<open>
  The in-process MultiGet adds entries under the keys it was called with.
\<close>

lemma memoryCache_MultiGet_dom:
  "memoryCache_MultiGet m keys valueMap client = Return (r, valueMap1) \<Longrightarrow>
   dom valueMap1 \<subseteq> dom valueMap \<union> set keys"
proof (induction keys arbitrary: valueMap)
  case Nil
  then show ?case by simp
next
  case (Cons key keys)
  show ?case
  proof (cases "memoryCache_Get m key (newObject m) client")
    case Panic
    with Cons.prems show ?thesis by simp
  next
    case (Return res)
    obtain err object where res: "res = (err, object)" by (cases res)
    show ?thesis
    proof (cases err)
      case None
      with Cons.prems Return res
      have "memoryCache_MultiGet m keys (valueMap(key \<mapsto> object)) client
              = Return (r, valueMap1)"
        by simp
      from Cons.IH [OF this] show ?thesis by auto
    next
      case (Some e)
      with Cons.prems Return res
      have "memoryCache_MultiGet m keys valueMap client = Return (r, valueMap1)"
        by simp
      from Cons.IH [OF this] show ?thesis by auto
    qed
  qed
qed

text \<open>
  The remote MultiGet adds entries under the physical keys of the reply's slots.
\<close>

lemma multiGet_inject_dom:
  "multiGet_inject c slots valueMap = Return (r, valueMap1) \<Longrightarrow>
   dom valueMap1 \<subseteq> dom valueMap \<union> fst ` set slots"
proof (induction slots arbitrary: valueMap)
  case Nil
  then show ?case by simp
next
  case (Cons slot slots)
  obtain cacheKey v where slot: "slot = (cacheKey, v)" by (cases slot)
  have skip: "multiGet_inject c slots valueMap = Return (r, valueMap1) \<Longrightarrow> ?case"
    using Cons.IH [of valueMap] by auto
  have put: ?case
    if a: "multiGet_inject c slots (valueMap(cacheKey \<mapsto> object)) = Return (r, valueMap1)"
    for object
  proof -
    from Cons.IH [OF a]
    have "dom valueMap1 \<subseteq> dom (valueMap(cacheKey \<mapsto> object)) \<union> fst ` set slots" .
    with slot show ?thesis by auto
  qed
  show ?case
  proof (cases v)
    case None
    with Cons.prems slot skip show ?thesis by simp
  next
    case (Some dataBytes)
    show ?thesis
    proof (cases "length dataBytes = 0 \<or> dataBytes = NotFoundPlaceholderBytes")
      case True
      with Cons.prems slot Some skip show ?thesis by simp
    next
      case False
      show ?thesis
      proof (cases "Unmarshal (encoding c) dataBytes (newObject c)")
        case Panic
        with False Cons.prems slot Some show ?thesis by simp
      next
        case (Return res)
        obtain err object where res: "res = (err, object)" by (cases res)
        show ?thesis
        proof (cases err)
          case None
          with False Return res Cons.prems slot Some
          have "multiGet_inject c slots (valueMap(cacheKey \<mapsto> object))
                  = Return (r, valueMap1)"
            by simp
          then show ?thesis by (rule put)
        next
          case (Some e)
          with False Return res Cons.prems slot \<open>v = Some dataBytes\<close>
          have "multiGet_inject c slots valueMap = Return (r, valueMap1)"
            by simp
          then show ?thesis by (rule skip)
        qed
      qed
    qed
  qed
qed

text \<open>
  C4. With the string codec and prefix \<open>app\<close>, after a Set of \<open>u:1\<close>, MultiGet of
  \<open>u:1\<close> into an empty map: the in-process backend puts the value under the logical
  key \<open>u:1\<close> and nothing under the physical key \<open>app:u:1\<close>; the remote backend puts
  it under \<open>app:u:1\<close> and nothing under \<open>u:1\<close>.
\<close>

theorem C4_memory_MultiGet_keys_by_logical_key:
  "(\<exists>client1 valueMap.
       memoryCache_Set appCache ''u:1'' (ptrTo ''A'') Hour emptyEngine = Return (None, client1)
     \<and> memoryCache_MultiGet appCache [''u:1''] Map.empty client1 = Return (None, valueMap)
     \<and> valueMap ''u:1'' = Some (ptrTo ''A'') \<and> valueMap ''app:u:1'' = None)
   \<and> (\<exists>client1 valueMap.
       redisCache_Set appCache ''u:1'' (ptrTo ''A'') Hour emptyRedis = Return (None, client1)
     \<and> redisCache_MultiGet appCache [''u:1''] Map.empty client1 = Return (None, valueMap)
     \<and> valueMap ''app:u:1'' = Some (ptrTo ''A'') \<and> valueMap ''u:1'' = None)"
  using Hour_pos
  by (simp add: memoryCache_Set_def memoryCache_Get_def redisCache_Set_def
      redisCache_MultiGet_def Marshal_raw Unmarshal_raw appCache_def BuildCacheKey_def
      emptyEngine_def emptyRedis_def ristretto_SetWithTTL_def ristretto_Wait_def
      ristretto_processItems_def ristretto_Get_def redis_Set_def redis_MGet_def
      NotFoundPlaceholderBytes_def NotFoundPlaceholder_def)

section \<open>Deletion\<close>

text \<open>
  The slice that the remote Del hands to the client has one slot for every key it was
  called with, and the slot of a key that does not build holds the empty string.
\<close>

lemma del_cacheKeys_length: "length (del_cacheKeys keyPrefix keys) = length keys"
  by (simp add: del_cacheKeys_def)

lemma del_cacheKeys_nth:
  "i < length keys \<Longrightarrow>
   del_cacheKeys keyPrefix keys ! i =
     (case BuildCacheKey keyPrefix (keys ! i) of Inl err \<Rightarrow> [] | Inr cacheKey \<Rightarrow> cacheKey)"
  by (simp add: del_cacheKeys_def)

text \<open>The in-process Del looks at its first argument only.\<close>

lemma memoryCache_Del_first_only:
  "memoryCache_Del m (key # others) client = memoryCache_Del m [key] client"
  by (simp add: memoryCache_Del_def)

text \<open>
  C7. With prefix \<open>app\<close>, the remote Del of the keys \<open>a\<close>, the empty key and \<open>b\<close>
  issues the deletion over \<open>app:a\<close>, the empty string and \<open>app:b\<close>: the key that
  failed is still in the batch, as the empty string. On a store that holds an entry
  under the empty key the call succeeds and that entry is gone.
\<close>

theorem C7_redis_Del_sends_empty_key:
  "del_cacheKeys ''app'' [''a'', [], ''b''] = [''app:a'', [], ''app:b'']
   \<and> (\<exists>client1.
        redisCache_Del appCache [''a'', [], ''b'']
          (emptyRedis\<lparr>db := [[] \<mapsto> (''other'', 0), ''app:a'' \<mapsto> (''A'', 0)]\<rparr>)
          = (None, client1)
        \<and> db client1 [] = None \<and> db client1 ''app:a'' = None)"
  by (simp add: del_cacheKeys_def redisCache_Del_def redis_Del_def BuildCacheKey_def
      appCache_def emptyRedis_def)

section \<open>Provider construction\<close>

text \<open>
  The single-node constructor returns a provider for every configuration that has a
  \<open>Redis\<close> block.
\<close>

lemma newRedisProvider_ignores_Addr:
  "Redis config = Some r \<Longrightarrow> \<exists>p. newRedisProvider NewClient config enc newObj = Inr p"
  by (simp add: newRedisProvider_def Let_def)

lemma newRedisClusterProvider_empty_Addrs:
  "RedisCluster config = Some r \<Longrightarrow> Addrs r = [] \<Longrightarrow>
   newRedisClusterProvider NewClusterClient config enc newObj =
     Inl (ErrNew ''redis cluster address list must not be empty'')"
  by (simp add: newRedisClusterProvider_def)

text \<open>
  C8. For the single-node configuration with an empty \<open>Addr\<close>, newRedisProvider
  returns a provider and no error. For the cluster configuration with an empty
  \<open>Addrs\<close> list, newRedisClusterProvider returns the error.
\<close>

theorem C8_newRedisProvider_accepts_empty_Addr:
  "newRedisProvider (\<lambda>options. emptyRedis) emptyAddrConfig (Some rawEncoding) (ptrTo [])
     = Inr (RedisProvider (appCache\<lparr>objDefaultExpireTime := Hour\<rparr>) (Some emptyRedis))
   \<and> newRedisClusterProvider (\<lambda>options. emptyRedis) emptyAddrsConfig (Some rawEncoding)
        (ptrTo [])
     = Inl (ErrNew ''redis cluster address list must not be empty'')"
  by (simp add: newRedisProvider_def newRedisClusterProvider_def emptyAddrConfig_def
      emptyAddrsConfig_def appCache_def)

section \<open>Closing every provider\<close>

lemma closeAll_loop_eq:
  "closeAll_loop ps lastErr =
     ((case filter (\<lambda>(name, p). fst (Provider_Close p) \<noteq> None) ps of
         [] \<Rightarrow> lastErr
       | f # fs \<Rightarrow>
           (case last (f # fs) of
              (name, p) \<Rightarrow>
                map_option (Errorf (''close provider failed, name='' @ name))
                  (fst (Provider_Close p)))),
      map (\<lambda>(name, p). (name, snd (Provider_Close p))) ps)"
proof (induction ps arbitrary: lastErr)
  case Nil
  then show ?case by simp
next
  case (Cons a ps)
  obtain name p where a: "a = (name, p)" by (cases a)
  obtain err p1 where c: "Provider_Close p = (err, p1)" by (cases "Provider_Close p")
  show ?case
    using Cons.IH a c
    by (cases err; cases "filter (\<lambda>(name, p). fst (Provider_Close p) \<noteq> None) ps")
       (simp_all split: prod.splits)
qed

text \<open>
  C9. CloseAll calls Close on every registered provider, whether or not an earlier
  Close failed: the registry afterwards holds each provider as its Close leaves it.
  The result is the error of the last provider, in the order of the iteration, whose
  Close failed, wrapped with that provider's name; the errors before it are dropped.
  It is nil when every Close succeeds.
\<close>

theorem C9_CloseAll_last_error:
  "snd (Manager_CloseAll m) =
     m\<lparr>providers := map (\<lambda>(name, p). (name, snd (Provider_Close p))) (providers m)\<rparr>
   \<and> fst (Manager_CloseAll m) =
       (case filter (\<lambda>(name, p). fst (Provider_Close p) \<noteq> None) (providers m) of
          [] \<Rightarrow> None
        | f # fs \<Rightarrow>
            (case last (f # fs) of
               (name, p) \<Rightarrow>
                 map_option (Errorf (''close provider failed, name='' @ name))
                   (fst (Provider_Close p))))
   \<and> ((\<forall>(name, p) \<in> set (providers m). fst (Provider_Close p) = None) \<longrightarrow>
        fst (Manager_CloseAll m) = None)"
proof -
  have "filter (\<lambda>(name, p). fst (Provider_Close p) \<noteq> None) (providers m) = []"
    if "\<forall>(name, p) \<in> set (providers m). fst (Provider_Close p) = None"
    using that by (auto simp: filter_empty_conv)
  then show ?thesis
    by (simp add: Manager_CloseAll_def closeAll_loop_eq)
qed

theorem C9_CloseAll_last_error_witness:
  "fst (Manager_CloseAll failingManager) =
     Some (Errorf ''close provider failed, name=c'' (External ''cluster close failed''))
   \<and> providers (snd (Manager_CloseAll failingManager)) =
       [(''a'', RedisProvider appCache
                 (Some (failingClient ''redis close failed''\<lparr>closed := True\<rparr>))),
        (''b'', MemoryProvider appCache (Some (emptyEngine\<lparr>rs_isClosed := True\<rparr>))),
        (''c'', RedisClusterProvider appCache
                 (Some (failingClient ''cluster close failed''\<lparr>closed := True\<rparr>)))]
   \<and> fst (Manager_CloseAll quietManager) = None"
  using C9_CloseAll_last_error [of failingManager] C9_CloseAll_last_error [of quietManager]
  by (simp add: failingManager_def quietManager_def Manager_AddProvider_def NewManager_def
      redis_Close_def ristretto_Close_def failingClient_def emptyRedis_def emptyEngine_def)

end
